theory Spec2Isabelle
  imports Main "HOL-Library.Sublist"
begin

section \<open>Python values and exceptions\<close>

text \<open>
  Exceptions of the two modules as values. \<open>ClientError\<close> stands for any exception that
  derives from Python's \<open>Exception\<close> and is raised inside a boto3 call; \<open>BaseExc\<close> for
  one that does not derive from \<open>Exception\<close> (\<open>SystemExit\<close>, \<open>KeyboardInterrupt\<close>).
\<close>

datatype error =
    IndexError
  | KeyError
  | TypeError
  | ValueError
  | ClientError string
  | BaseExc string

fun is_Exception :: "error \<Rightarrow> bool" where
  "is_Exception (BaseExc m) = False"
| "is_Exception e = True"

text \<open>
  Subscripting a Python list with an integer: from the front for \<open>0, 1, ...\<close>, from
  the back for \<open>-1, -2, ...\<close>, and \<open>IndexError\<close> beyond either end.
\<close>

definition py_index :: "'a list \<Rightarrow> int \<Rightarrow> error + 'a" where
  "py_index xs i =
     (if 0 \<le> i \<and> i < int (length xs) then Inr (xs ! nat i)
      else if i < 0 \<and> - int (length xs) \<le> i then Inr (xs ! nat (int (length xs) + i))
      else Inl IndexError)"

section \<open>arntopia.py\<close>

subsection \<open>\<open>str.replace\<close> and \<open>str.split\<close> on one character\<close>

definition replace_char :: "char \<Rightarrow> char \<Rightarrow> string \<Rightarrow> string" where
  "replace_char old new s = map (\<lambda>c. if c = old then new else c) s"

text \<open>
  \<open>s.split(sep)\<close> for a one-character separator: the result is never empty, the empty
  string gives one empty segment. The second branch of the \<open>case\<close> is never taken.
\<close>

fun split_char :: "char \<Rightarrow> string \<Rightarrow> string list" where
  "split_char sep [] = ['''']"
| "split_char sep (c # cs) =
     (if c = sep then [] # split_char sep cs
      else (case split_char sep cs of
              w # ws \<Rightarrow> (c # w) # ws
            | [] \<Rightarrow> [c] # []))"

subsection \<open>\<open>breakDownARN\<close>\<close>

record arn_fields =
  ARN :: string
  Partition :: "string option"
  Service :: "string option"
  Region :: "string option"
  AccountId :: "string option"
  ResourceType :: "string option"
  Resource :: "string option"
  Qualifier :: "string option"

text \<open>
  A statement of the \<open>try\<close> block runs on the dictionary \<open>retVal\<close> and either completes
  or raises; the dictionary keeps what was stored before the raise.
\<close>

type_synonym stmt = "arn_fields \<Rightarrow> error option \<times> arn_fields"

definition seq :: "stmt \<Rightarrow> stmt \<Rightarrow> stmt" where
  "seq s1 s2 r = (case s1 r of (Some e, r') \<Rightarrow> (Some e, r') | (None, r') \<Rightarrow> s2 r')"

text \<open>\<open>retVal[field] = arnParts[i]\<close>\<close>

definition assign ::
  "((string option \<Rightarrow> string option) \<Rightarrow> arn_fields \<Rightarrow> arn_fields) \<Rightarrow> string list \<Rightarrow> int \<Rightarrow> stmt" where
  "assign field_update arnParts i r =
     (case py_index arnParts i of
        Inl e \<Rightarrow> (Some e, r)
      | Inr v \<Rightarrow> (None, field_update (\<lambda>_. Some v) r))"

definition try_body :: "string list \<Rightarrow> stmt" where
  "try_body arnParts =
     seq (assign Partition_update arnParts 1)
    (seq (assign Service_update arnParts 2)
    (seq (assign Region_update arnParts 3)
    (seq (assign AccountId_update arnParts 4)
    (seq (if length arnParts = 6
          then assign Resource_update arnParts 5
          else seq (assign ResourceType_update arnParts 5)
                   (assign Resource_update arnParts 6))
         (assign Qualifier_update arnParts 7)))))"

text \<open>The list \<open>arnParts\<close> of the source: \<open>arn.replace("/", ":").split(":")\<close>.\<close>

definition arnParts :: "string \<Rightarrow> string list" where
  "arnParts arn = split_char CHR '':'' (replace_char CHR ''/'' CHR '':'' arn)"

text \<open>
  \<open>except: pass\<close> drops the exception and keeps the dictionary. The override for
  autoscaling groups is outside the \<open>try\<close>, so a raise of \<open>arnParts[-1]\<close> would leave
  the function.
\<close>

definition breakDownARN :: "string \<Rightarrow> error + arn_fields" where
  "breakDownARN arn =
     (let retVal = \<lparr>ARN = arn, Partition = None, Service = None, Region = None,
                    AccountId = None, ResourceType = None, Resource = None,
                    Qualifier = None\<rparr>;
          retVal = snd (try_body (arnParts arn) retVal)
      in if Service retVal = Some ''autoscaling''
            \<and> ResourceType retVal = Some ''autoScalingGroup''
         then (case py_index (arnParts arn) (- 1) of
                 Inl e \<Rightarrow> Inl e
               | Inr q \<Rightarrow> Inr (retVal\<lparr>Qualifier := Some q\<rparr>))
         else Inr retVal)"

section \<open>manageFleetDNS.py\<close>

subsection \<open>The event: a decoded JSON document\<close>

text \<open>
  The handler receives whatever JSON the trigger sent, decoded: a dictionary, but also a
  list, a string, a number, a boolean or \<open>None\<close>. Numbers are integers here; no
  operation of the handler computes with one.
\<close>

datatype pyval =
    PNone
  | PBool bool
  | PInt int
  | PStr string
  | PList "pyval list"
  | PDict "(string \<times> pyval) list"

text \<open>\<open>needle in hay\<close> on two strings is the substring test.\<close>

fun is_substring :: "string \<Rightarrow> string \<Rightarrow> bool" where
  "is_substring needle [] = (needle = [])"
| "is_substring needle (c # cs) = (prefix needle (c # cs) \<or> is_substring needle cs)"

text \<open>
  \<open>key in v\<close> for a string \<open>key\<close>: membership among the keys of a dictionary, among the
  elements of a list, the substring test on a string, \<open>TypeError\<close> on a value that is
  not iterable.
\<close>

fun py_contains :: "pyval \<Rightarrow> string \<Rightarrow> error + bool" where
  "py_contains (PDict kvs) key = Inr (map_of kvs key \<noteq> None)"
| "py_contains (PList xs) key = Inr (PStr key \<in> set xs)"
| "py_contains (PStr s) key = Inr (is_substring key s)"
| "py_contains v key = Inl TypeError"

text \<open>
  \<open>v[key]\<close> for a string \<open>key\<close>: the value stored in a dictionary or \<open>KeyError\<close>;
  \<open>TypeError\<close> on every other value (a list or string wants an integer index, the rest
  cannot be subscripted).
\<close>

fun py_getitem :: "pyval \<Rightarrow> string \<Rightarrow> error + pyval" where
  "py_getitem (PDict kvs) key =
     (case map_of kvs key of None \<Rightarrow> Inl KeyError | Some v \<Rightarrow> Inr v)"
| "py_getitem v key = Inl TypeError"

text \<open>
  \<open>xs.remove(x)\<close> deletes the first element equal to \<open>x\<close> and raises \<open>ValueError\<close>
  when there is none. The lists of this module hold addresses (strings or \<open>None\<close>), on
  which Python's \<open>==\<close> is equality of \<^typ>\<open>pyval\<close>.
\<close>

fun py_remove :: "pyval \<Rightarrow> pyval list \<Rightarrow> error + pyval list" where
  "py_remove x [] = Inl ValueError"
| "py_remove x (y # ys) =
     (if y = x then Inr ys
      else (case py_remove x ys of Inl e \<Rightarrow> Inl e | Inr zs \<Rightarrow> Inr (y # zs)))"

subsection \<open>The collaborators and the record of what the handler did\<close>

record resource_record =
  Value :: pyval

text \<open>A record set as \<open>list_resource_record_sets\<close> returns it.\<close>

record listed_record_set =
  rs_Name :: string
  rs_Type :: string
  rs_ResourceRecords :: "resource_record list"

text \<open>The record set \<open>setDNSRecord\<close> sends.\<close>

record upsert_record_set =
  Name :: "string option"
  Type :: string
  TTL :: nat
  ResourceRecords :: "resource_record list"

text \<open>
  The answers of the AWS services, one field for each boto3 call of the module. Each may
  raise. \<open>ec2_public_ip_address\<close> is \<open>ec2.Instance(id)\<close>, \<open>load()\<close> and the attribute
  \<open>public_ip_address\<close> (a string or \<open>None\<close>); \<open>describe_auto_scaling_groups\<close> gives the
  list under \<open>"AutoScalingGroups"\<close>, each group as the \<open>"InstanceId"\<close>s of its
  \<open>"Instances"\<close>.
\<close>

record aws =
  ec2_public_ip_address :: "pyval \<Rightarrow> error + pyval"
  list_resource_record_sets :: "string option \<Rightarrow> error + listed_record_set list"
  change_resource_record_sets :: "string option \<Rightarrow> upsert_record_set \<Rightarrow> error + unit"
  complete_lifecycle_action :: "pyval \<Rightarrow> string option \<Rightarrow> pyval \<Rightarrow> error + unit"
  describe_auto_scaling_groups :: "string option \<Rightarrow> error + string list list"

text \<open>
  What an invocation does to the outside, in order: the boto3 calls with their
  arguments and the lines printed. \<open>CompleteLifecycleAction hook group instance\<close> always
  carries the result \<open>CONTINUE\<close>, \<open>ChangeResourceRecordSets\<close> always the action
  \<open>UPSERT\<close>. \<open>PrintException e\<close> is the line
  \<open>"Error: An exception occured: " + str(e)\<close>.
\<close>

datatype call =
    Ec2InstanceLoad pyval
  | ListResourceRecordSets "string option"
  | ChangeResourceRecordSets "string option" upsert_record_set
  | CompleteLifecycleAction pyval "string option" pyval
  | DescribeAutoScalingGroups "string option"
  | Print string
  | PrintException error

text \<open>A computation extends the trace and returns a value or raises.\<close>

type_synonym 'a io = "call list \<Rightarrow> (error + 'a) \<times> call list"

definition ret :: "'a \<Rightarrow> 'a io" where
  "ret x t = (Inr x, t)"

definition bind :: "'a io \<Rightarrow> ('a \<Rightarrow> 'b io) \<Rightarrow> 'b io" where
  "bind m f t = (case m t of (Inl e, t') \<Rightarrow> (Inl e, t') | (Inr x, t') \<Rightarrow> f x t')"

text \<open>A step without effect that may raise.\<close>

definition lift :: "error + 'a \<Rightarrow> 'a io" where
  "lift r t = (r, t)"

text \<open>A boto3 call: it is recorded, then its answer is returned or its exception raised.\<close>

definition boto :: "call \<Rightarrow> error + 'a \<Rightarrow> 'a io" where
  "boto c r t = (r, t @ [c])"

definition print :: "string \<Rightarrow> unit io" where
  "print msg t = (Inr (), t @ [Print msg])"

subsection \<open>The functions of the module\<close>

definition getIPofInstance :: "aws \<Rightarrow> pyval \<Rightarrow> pyval io" where
  "getIPofInstance a instanceId =
     boto (Ec2InstanceLoad instanceId) (ec2_public_ip_address a instanceId)"

definition resumeAutoscaleTransition ::
  "aws \<Rightarrow> string option \<Rightarrow> pyval \<Rightarrow> pyval \<Rightarrow> bool io" where
  "resumeAutoscaleTransition a autoscaleGroupName autoscaleLifecycleHookName instanceId =
     bind (boto (CompleteLifecycleAction autoscaleLifecycleHookName autoscaleGroupName instanceId)
             (complete_lifecycle_action a autoscaleLifecycleHookName autoscaleGroupName instanceId))
          (\<lambda>response. ret True)"

text \<open>
  The second loop of \<open>getIpAddressesFromRoute53Entry\<close>: it runs over a dictionary, that
  is over its keys, and subscripts each key with \<open>"Value"\<close>.
\<close>

fun collect_values :: "string list \<Rightarrow> pyval list \<Rightarrow> error + pyval list" where
  "collect_values [] ipAddresses = Inr ipAddresses"
| "collect_values (resourceRecord # rest) ipAddresses =
     (case py_getitem (PStr resourceRecord) ''Value'' of
        Inl e \<Rightarrow> Inl e
      | Inr v \<Rightarrow> collect_values rest (ipAddresses @ [v]))"

text \<open>
  The first loop stores the matching record set in \<open>currentResourceRecordSet\<close>; the
  second one reads \<open>resourceRecordSet\<close>, which is still the empty dictionary.
\<close>

definition getIpAddressesFromRoute53Entry ::
  "aws \<Rightarrow> string option \<Rightarrow> string option \<Rightarrow> pyval list io" where
  "getIpAddressesFromRoute53Entry a route53ZoneId hostRecordToMaintain =
     bind (boto (ListResourceRecordSets route53ZoneId)
             (list_resource_record_sets a route53ZoneId))
          (\<lambda>currentRecordSets.
             let resourceRecordSet = ([] :: (string \<times> pyval) list);
                 currentResourceRecordSet =
                   foldl (\<lambda>cur recordSet.
                            if Some (rs_Name recordSet) = hostRecordToMaintain
                               \<and> rs_Type recordSet = ''A''
                            then Some recordSet else cur)
                         None currentRecordSets
             in lift (collect_values (map fst resourceRecordSet) []))"

definition setDNSRecord ::
  "aws \<Rightarrow> string option \<Rightarrow> string option \<Rightarrow> pyval list \<Rightarrow> unit io" where
  "setDNSRecord a route53ZoneId hostRecordToMaintain ipAddresses =
     (let resourceRecords = map (\<lambda>ipAddress. \<lparr>Value = ipAddress\<rparr>) ipAddresses;
          resourceRecordSet = \<lparr>Name = hostRecordToMaintain, Type = ''A'', TTL = 300,
                               ResourceRecords = resourceRecords\<rparr>
      in boto (ChangeResourceRecordSets route53ZoneId resourceRecordSet)
              (change_resource_record_sets a route53ZoneId resourceRecordSet))"

text \<open>The loop of \<open>baselineIpAddressesInDNS\<close> over the instances of the group.\<close>

fun collect_ips :: "aws \<Rightarrow> string list \<Rightarrow> pyval list \<Rightarrow> pyval list io" where
  "collect_ips a [] ipAddresses = ret ipAddresses"
| "collect_ips a (instance # rest) ipAddresses =
     bind (getIPofInstance a (PStr instance))
          (\<lambda>ip. collect_ips a rest (ipAddresses @ [ip]))"

definition baselineIpAddressesInDNS ::
  "aws \<Rightarrow> string option \<Rightarrow> string option \<Rightarrow> string option \<Rightarrow> string io" where
  "baselineIpAddressesInDNS a route53ZoneId hostRecordToMaintain autoscaleGroupName =
     bind (boto (DescribeAutoScalingGroups autoscaleGroupName)
             (describe_auto_scaling_groups a autoscaleGroupName))
    (\<lambda>groups. bind (lift (py_index groups 0))
    (\<lambda>instances. bind (collect_ips a instances [])
    (\<lambda>ipAddresses. bind (setDNSRecord a route53ZoneId hostRecordToMaintain ipAddresses)
    (\<lambda>_. ret ''''))))"

text \<open>The three environment variables, each \<open>None\<close> when unset.\<close>

record config =
  route53ZoneId :: "string option"
  hostRecordToMaintain :: "string option"
  autoscaleGroupName :: "string option"

text \<open>
  The condition of the \<open>if\<close> in \<open>lambda_handler\<close>. \<open>and\<close> evaluates from the left and
  stops at the first false operand; an operand that raises ends the evaluation.
\<close>

definition is_lifecycle_event :: "pyval \<Rightarrow> error + bool" where
  "is_lifecycle_event event =
     (case py_contains event ''source'' of
        Inl e \<Rightarrow> Inl e
      | Inr False \<Rightarrow> Inr False
      | Inr True \<Rightarrow>
     (case py_getitem event ''source'' of
        Inl e \<Rightarrow> Inl e
      | Inr source \<Rightarrow>
          if source \<noteq> PStr ''aws.autoscaling'' then Inr False
          else
     (case py_getitem event ''detail-type'' of
        Inl e \<Rightarrow> Inl e
      | Inr detail_type \<Rightarrow>
          if detail_type \<noteq> PStr ''EC2 Instance-launch Lifecycle Action'' then Inr False
          else
     (case py_getitem event ''detail'' of
        Inl e \<Rightarrow> Inl e
      | Inr detail \<Rightarrow> py_contains detail ''EC2InstanceId''))))"

text \<open>\<open>event["detail"][key]\<close>\<close>

definition detail_item :: "pyval \<Rightarrow> string \<Rightarrow> error + pyval" where
  "detail_item event key =
     (case py_getitem event ''detail'' of Inl e \<Rightarrow> Inl e | Inr detail \<Rightarrow> py_getitem detail key)"

text \<open>
  The \<open>if\<close>/\<open>elif\<close>/\<open>else\<close> statement on \<open>lifecycleTransition\<close> inside the
  handler.
\<close>

definition update_for_transition :: "aws \<Rightarrow> config \<Rightarrow> pyval \<Rightarrow> pyval \<Rightarrow> unit io" where
  "update_for_transition a cfg lifecycleTransition newInstancePublicIP =
     (if lifecycleTransition = PStr ''autoscaling:EC2_INSTANCE_LAUNCHING'' then
        bind (getIpAddressesFromRoute53Entry a (route53ZoneId cfg) (hostRecordToMaintain cfg))
       (\<lambda>ipAddresses.
          bind (setDNSRecord a (route53ZoneId cfg) (hostRecordToMaintain cfg)
                  (ipAddresses @ [newInstancePublicIP]))
       (\<lambda>_. print
          ''Success: Host record updated to include the new instance public IP address.''))
      else if lifecycleTransition = PStr ''autoscaling:EC2_INSTANCE_TERMINATING'' then
        bind (getIpAddressesFromRoute53Entry a (route53ZoneId cfg) (hostRecordToMaintain cfg))
       (\<lambda>ipAddresses. bind (lift (py_remove newInstancePublicIP ipAddresses))
       (\<lambda>ipAddresses.
          bind (setDNSRecord a (route53ZoneId cfg) (hostRecordToMaintain cfg) ipAddresses)
       (\<lambda>_. print
          ''Success: Host record updated to remove the retiring instance public IP address.'')))
      else print ''Error: No valid lifecycle transition identified.'')"

text \<open>The body of the \<open>try\<close> statement.\<close>

definition handler_body :: "aws \<Rightarrow> config \<Rightarrow> pyval \<Rightarrow> unit io" where
  "handler_body a cfg event =
     bind (lift (is_lifecycle_event event))
    (\<lambda>recognized.
       if recognized then
         bind (lift (detail_item event ''EC2InstanceId''))
        (\<lambda>instanceId. bind (lift (detail_item event ''LifecycleTransition''))
        (\<lambda>lifecycleTransition. bind (lift (detail_item event ''LifecycleHookName''))
        (\<lambda>autoscaleLifecycleHookName. bind (getIPofInstance a instanceId)
        (\<lambda>newInstancePublicIP.
           bind (update_for_transition a cfg lifecycleTransition newInstancePublicIP)
        (\<lambda>_. bind (resumeAutoscaleTransition a (autoscaleGroupName cfg)
                     autoscaleLifecycleHookName instanceId)
        (\<lambda>_. ret ()))))))
       else
         bind (baselineIpAddressesInDNS a (route53ZoneId cfg) (hostRecordToMaintain cfg)
                 (autoscaleGroupName cfg))
        (\<lambda>_. print
           ''Success: Host record reset with current instance public IP addresses for autoscale group.''))"

text \<open>
  \<open>except Exception as e\<close> prints and goes on; an exception outside \<open>Exception\<close> passes
  through.
\<close>

definition except_Exception :: "unit io \<Rightarrow> unit io" where
  "except_Exception m t =
     (case m t of
        (Inl e, t') \<Rightarrow> if is_Exception e then (Inr (), t' @ [PrintException e]) else (Inl e, t')
      | (Inr u, t') \<Rightarrow> (Inr u, t'))"

text \<open>
  \<open>finally: return v\<close>: the \<open>return\<close> replaces whatever the statement was about to do,
  a pending exception included.
\<close>

definition finally_return :: "'b \<Rightarrow> 'a io \<Rightarrow> 'b io" where
  "finally_return v m t = (case m t of (r, t') \<Rightarrow> (Inr v, t'))"

text \<open>\<open>lambda_handler(event, context)\<close>; the argument \<open>context\<close> is not used.\<close>

definition lambda_handler :: "aws \<Rightarrow> config \<Rightarrow> pyval \<Rightarrow> string io" where
  "lambda_handler a cfg event =
     finally_return '''' (except_Exception (handler_body a cfg event))"

subsection \<open>Inputs used in the concrete runs\<close>

text \<open>
  A fleet of two instances with public addresses, a zone whose record for the host holds
  two addresses, and services that accept every write.
\<close>

definition fleet_aws :: aws where
  "fleet_aws =
     \<lparr>ec2_public_ip_address =
        (\<lambda>i. if i = PStr ''i-0aaa'' then Inr (PStr ''198.51.100.1'')
              else if i = PStr ''i-0bbb'' then Inr (PStr ''198.51.100.2'')
              else Inl (ClientError ''InvalidInstanceID.NotFound'')),
      list_resource_record_sets =
        (\<lambda>z. Inr [\<lparr>rs_Name = ''fleet.example.com.'', rs_Type = ''A'',
                    rs_ResourceRecords = [\<lparr>Value = PStr ''198.51.100.2''\<rparr>,
                                          \<lparr>Value = PStr ''198.51.100.3''\<rparr>]\<rparr>]),
      change_resource_record_sets = (\<lambda>z r. Inr ()),
      complete_lifecycle_action = (\<lambda>h g i. Inr ()),
      describe_auto_scaling_groups = (\<lambda>g. Inr ([''i-0aaa'', ''i-0bbb''] # []))\<rparr>"

text \<open>The same services, with a DNS write that is refused.\<close>

definition throttled_aws :: aws where
  "throttled_aws =
     fleet_aws\<lparr>change_resource_record_sets := (\<lambda>z r. Inl (ClientError ''Throttling''))\<rparr>"

definition fleet_config :: config where
  "fleet_config =
     \<lparr>route53ZoneId = Some ''Z1'', hostRecordToMaintain = Some ''fleet.example.com.'',
      autoscaleGroupName = Some ''fleet''\<rparr>"

text \<open>The event CloudWatch sends for a lifecycle action of an instance.\<close>

definition lifecycle_event :: "string \<Rightarrow> string \<Rightarrow> pyval" where
  "lifecycle_event instanceId transition =
     PDict [(''source'', PStr ''aws.autoscaling''),
            (''detail-type'', PStr ''EC2 Instance-launch Lifecycle Action''),
            (''detail'', PDict [(''EC2InstanceId'', PStr instanceId),
                               (''LifecycleTransition'', PStr transition),
                               (''LifecycleHookName'', PStr ''dns-hook'')])]"

section \<open>Properties of \<open>breakDownARN\<close>\<close>

lemma split_char_not_Nil: "split_char sep s \<noteq> []"
  by (induction s) (auto split: list.splits)

lemma arnParts_not_Nil: "arnParts arn \<noteq> []"
  by (simp add: arnParts_def split_char_not_Nil)

lemma py_index_last: "xs \<noteq> [] \<Longrightarrow> py_index xs (- 1) = Inr (last xs)"
  by (cases xs rule: rev_cases) (auto simp: py_index_def nth_append)

lemma py_index_nonneg:
  "0 \<le> i \<Longrightarrow>
   py_index xs i = (if nat i < length xs then Inr (xs ! nat i) else Inl IndexError)"
  by (auto simp: py_index_def Let_def)

lemmas try_defs = try_body_def seq_def assign_def

lemma try_body_six:
  "length ps = 6 \<Longrightarrow>
   snd (try_body ps r) =
     r\<lparr>Partition := Some (ps ! 1), Service := Some (ps ! 2), Region := Some (ps ! 3),
       AccountId := Some (ps ! 4), Resource := Some (ps ! 5)\<rparr>"
  by (simp add: try_defs py_index_nonneg)

lemma try_body_seven:
  "7 \<le> length ps \<Longrightarrow>
   snd (try_body ps r) =
     r\<lparr>Partition := Some (ps ! 1), Service := Some (ps ! 2), Region := Some (ps ! 3),
       AccountId := Some (ps ! 4), ResourceType := Some (ps ! 5), Resource := Some (ps ! 6),
       Qualifier := (if 7 < length ps then Some (ps ! 7) else Qualifier r)\<rparr>"
  by (simp add: try_defs py_index_nonneg)

lemma try_body_short: "length ps < 2 \<Longrightarrow> snd (try_body ps r) = r"
  by (simp add: try_defs py_index_nonneg)

text \<open>The first four fields after the \<open>try\<close> block, for a list of any length.\<close>

lemma try_body_head:
  "Partition (snd (try_body ps r)) = (if 1 < length ps then Some (ps ! 1) else Partition r)"
  "Service (snd (try_body ps r)) = (if 2 < length ps then Some (ps ! 2) else Service r)"
  "Region (snd (try_body ps r)) = (if 3 < length ps then Some (ps ! 3) else Region r)"
  "AccountId (snd (try_body ps r)) = (if 4 < length ps then Some (ps ! 4) else AccountId r)"
  by (simp_all add: try_defs py_index_nonneg)

text \<open>\<open>breakDownARN\<close> always returns, and the override touches the qualifier only.\<close>

lemma breakDownARN_returns:
  "\<exists>q. breakDownARN arn =
     Inr ((snd (try_body (arnParts arn)
            \<lparr>ARN = arn, Partition = None, Service = None, Region = None, AccountId = None,
             ResourceType = None, Resource = None, Qualifier = None\<rparr>))\<lparr>Qualifier := q\<rparr>)"
proof -
  let ?r = "snd (try_body (arnParts arn)
            \<lparr>ARN = arn, Partition = None, Service = None, Region = None, AccountId = None,
             ResourceType = None, Resource = None, Qualifier = None\<rparr>)"
  have "breakDownARN arn = Inr (?r\<lparr>Qualifier := Some (last (arnParts arn))\<rparr>)
      \<or> breakDownARN arn = Inr (?r\<lparr>Qualifier := Qualifier ?r\<rparr>)"
    by (simp add: breakDownARN_def Let_def py_index_last arnParts_not_Nil)
  then show ?thesis by blast
qed

lemma nth_from_take: "i < n \<Longrightarrow> take n xs = take n ys \<Longrightarrow> i < length xs \<Longrightarrow> xs ! i = ys ! i"
  by (metis nth_take)

lemmas eval_arn = breakDownARN_def arnParts_def replace_char_def try_defs py_index_def Let_def

text \<open>
  C8. When the identifier splits into exactly 6 segments, \<open>ResourceType\<close> stays null and
  \<open>Resource\<close> is the sixth segment; when it splits into 7 or more, \<open>ResourceType\<close> is
  the sixth segment and \<open>Resource\<close> the seventh. The segments are those of the source's
  list \<open>arnParts\<close>, counted from one.
\<close>

theorem breakDownARN_resource_fields:
  "(length (arnParts arn) = 6 \<longrightarrow>
      (\<exists>r. breakDownARN arn = Inr r \<and> ResourceType r = None
           \<and> Resource r = Some (arnParts arn ! 5)))
   \<and> (7 \<le> length (arnParts arn) \<longrightarrow>
      (\<exists>r. breakDownARN arn = Inr r \<and> ResourceType r = Some (arnParts arn ! 5)
           \<and> Resource r = Some (arnParts arn ! 6)))"
  by (simp add: breakDownARN_def Let_def try_body_six try_body_seven py_index_last
      arnParts_not_Nil)

theorem breakDownARN_resource_fields_witness:
  "length (arnParts ''arn:aws:s3:::my-bucket'') = 6
   \<and> (\<exists>r. breakDownARN ''arn:aws:s3:::my-bucket'' = Inr r \<and> ResourceType r = None
          \<and> Resource r = Some ''my-bucket'')
   \<and> 7 \<le> length (arnParts ''arn:aws:ec2:us-east-1:123456789012:instance/i-0aaa'')
   \<and> (\<exists>r. breakDownARN ''arn:aws:ec2:us-east-1:123456789012:instance/i-0aaa'' = Inr r
          \<and> ResourceType r = Some ''instance'' \<and> Resource r = Some ''i-0aaa'')"
proof -
  have six: "arnParts ''arn:aws:s3:::my-bucket'' = [''arn'', ''aws'', ''s3'', '''', '''', ''my-bucket'']"
    by (simp add: arnParts_def replace_char_def)
  have seven: "arnParts ''arn:aws:ec2:us-east-1:123456789012:instance/i-0aaa''
      = [''arn'', ''aws'', ''ec2'', ''us-east-1'', ''123456789012'', ''instance'', ''i-0aaa'']"
    by (simp add: arnParts_def replace_char_def)
  show ?thesis
    using breakDownARN_resource_fields [of "''arn:aws:s3:::my-bucket''"]
      breakDownARN_resource_fields [of "''arn:aws:ec2:us-east-1:123456789012:instance/i-0aaa''"]
    by (simp add: six seven)
qed

text \<open>
  C9, as stated, fails: the string below has four segments, yet \<open>AccountId\<close> is null, and
  \<open>Partition\<close> is the second segment, not the first. \<open>arnParts[4]\<close> needs a fifth
  segment.
\<close>

theorem breakDownARN_four_segments_counterexample:
  "arnParts ''arn:aws:ec2:us-east-1'' = [''arn'', ''aws'', ''ec2'', ''us-east-1'']
   \<and> breakDownARN ''arn:aws:ec2:us-east-1'' =
       Inr \<lparr>ARN = ''arn:aws:ec2:us-east-1'', Partition = Some ''aws'', Service = Some ''ec2'',
            Region = Some ''us-east-1'', AccountId = None, ResourceType = None,
            Resource = None, Qualifier = None\<rparr>"
  by (simp add: eval_arn)

text \<open>
  C9, amended. When the identifier splits (at \<open>:\<close> and \<open>/\<close>) into at least 5 segments,
  \<open>Partition\<close>, \<open>Service\<close>, \<open>Region\<close> and \<open>AccountId\<close> are the second to fifth segment
  (\<open>arnParts[1]\<close> to \<open>arnParts[4]\<close>), and every identifier with the same first five
  segments has the same four fields, whatever its sixth and later segments are.
\<close>

theorem breakDownARN_head_fields:
  assumes "5 \<le> length (arnParts arn)"
  shows "\<exists>r. breakDownARN arn = Inr r
     \<and> Partition r = Some (arnParts arn ! 1) \<and> Service r = Some (arnParts arn ! 2)
     \<and> Region r = Some (arnParts arn ! 3) \<and> AccountId r = Some (arnParts arn ! 4)
     \<and> (\<forall>arn'. take 5 (arnParts arn') = take 5 (arnParts arn) \<longrightarrow>
          (\<exists>r'. breakDownARN arn' = Inr r'
             \<and> Partition r' = Partition r \<and> Service r' = Service r
             \<and> Region r' = Region r \<and> AccountId r' = AccountId r))"
proof -
  obtain q where r: "breakDownARN arn =
     Inr ((snd (try_body (arnParts arn)
            \<lparr>ARN = arn, Partition = None, Service = None, Region = None, AccountId = None,
             ResourceType = None, Resource = None, Qualifier = None\<rparr>))\<lparr>Qualifier := q\<rparr>)"
    using breakDownARN_returns by blast
  have "\<exists>r'. breakDownARN arn' = Inr r'
             \<and> Partition r' = Some (arnParts arn ! 1) \<and> Service r' = Some (arnParts arn ! 2)
             \<and> Region r' = Some (arnParts arn ! 3) \<and> AccountId r' = Some (arnParts arn ! 4)"
    if same: "take 5 (arnParts arn') = take 5 (arnParts arn)" for arn'
  proof -
    obtain q' where r': "breakDownARN arn' =
       Inr ((snd (try_body (arnParts arn')
            \<lparr>ARN = arn', Partition = None, Service = None, Region = None, AccountId = None,
             ResourceType = None, Resource = None, Qualifier = None\<rparr>))\<lparr>Qualifier := q'\<rparr>)"
      using breakDownARN_returns by blast
    have len: "5 \<le> length (arnParts arn')"
      using same assms by (metis length_take min.absorb2 min.cobounded1)
    have "arnParts arn' ! i = arnParts arn ! i" if "i < 5" for i
      using that same len by (intro nth_from_take [of i 5]) auto
    then have "arnParts arn' ! 1 = arnParts arn ! 1" "arnParts arn' ! 2 = arnParts arn ! 2"
      "arnParts arn' ! 3 = arnParts arn ! 3" "arnParts arn' ! 4 = arnParts arn ! 4"
      by simp_all
    with len show ?thesis by (simp add: r' try_body_head)
  qed
  with assms show ?thesis by (simp add: r try_body_head)
qed

theorem breakDownARN_head_fields_witness:
  "5 \<le> length (arnParts ''arn:aws:sqs:us-east-2:444455556666:queue1'')
   \<and> take 5 (arnParts ''arn:aws:sqs:us-east-2:444455556666:table/orders/stream'')
       = take 5 (arnParts ''arn:aws:sqs:us-east-2:444455556666:queue1'')
   \<and> (\<exists>r r'. breakDownARN ''arn:aws:sqs:us-east-2:444455556666:queue1'' = Inr r
        \<and> breakDownARN ''arn:aws:sqs:us-east-2:444455556666:table/orders/stream'' = Inr r'
        \<and> Partition r = Some ''aws'' \<and> Service r = Some ''sqs''
        \<and> Region r = Some ''us-east-2'' \<and> AccountId r = Some ''444455556666''
        \<and> Partition r' = Some ''aws'' \<and> Service r' = Some ''sqs''
        \<and> Region r' = Some ''us-east-2'' \<and> AccountId r' = Some ''444455556666'')"
proof -
  let ?a = "''arn:aws:sqs:us-east-2:444455556666:queue1''"
  let ?b = "''arn:aws:sqs:us-east-2:444455556666:table/orders/stream''"
  have a: "arnParts ?a = [''arn'', ''aws'', ''sqs'', ''us-east-2'', ''444455556666'', ''queue1'']"
    by (simp add: arnParts_def replace_char_def)
  have b: "arnParts ?b = [''arn'', ''aws'', ''sqs'', ''us-east-2'', ''444455556666'', ''table'',
      ''orders'', ''stream'']"
    by (simp add: arnParts_def replace_char_def)
  have len: "5 \<le> length (arnParts ?a)" by (simp add: a)
  have same: "take 5 (arnParts ?b) = take 5 (arnParts ?a)" by (simp add: a b)
  from breakDownARN_head_fields [OF len] obtain r where
    r: "breakDownARN ?a = Inr r" "Partition r = Some (arnParts ?a ! 1)"
       "Service r = Some (arnParts ?a ! 2)" "Region r = Some (arnParts ?a ! 3)"
       "AccountId r = Some (arnParts ?a ! 4)"
    and indep: "\<forall>arn'. take 5 (arnParts arn') = take 5 (arnParts ?a) \<longrightarrow>
          (\<exists>r'. breakDownARN arn' = Inr r'
             \<and> Partition r' = Partition r \<and> Service r' = Service r
             \<and> Region r' = Region r \<and> AccountId r' = AccountId r)"
    by blast
  from indep same obtain r' where
    r': "breakDownARN ?b = Inr r'" "Partition r' = Partition r" "Service r' = Service r"
      "Region r' = Region r" "AccountId r' = AccountId r"
    by blast
  have "breakDownARN ?a = Inr r \<and> breakDownARN ?b = Inr r'
        \<and> Partition r = Some ''aws'' \<and> Service r = Some ''sqs''
        \<and> Region r = Some ''us-east-2'' \<and> AccountId r = Some ''444455556666''
        \<and> Partition r' = Some ''aws'' \<and> Service r' = Some ''sqs''
        \<and> Region r' = Some ''us-east-2'' \<and> AccountId r' = Some ''444455556666''"
    using r r' by (simp add: a)
  with len same show ?thesis by blast
qed

text \<open>
  C10. When the input splits into fewer than 2 segments (it holds neither \<open>:\<close> nor
  \<open>/\<close>), \<open>breakDownARN\<close> returns, no exception leaves it, and every field of the result
  is null except \<open>ARN\<close>, which is the input.
\<close>

theorem breakDownARN_short_input:
  "length (arnParts arn) < 2 \<Longrightarrow>
   breakDownARN arn =
     Inr \<lparr>ARN = arn, Partition = None, Service = None, Region = None, AccountId = None,
          ResourceType = None, Resource = None, Qualifier = None\<rparr>"
  by (simp add: breakDownARN_def Let_def try_body_short)

theorem breakDownARN_short_input_witness:
  "length (arnParts ''my-table'') < 2
   \<and> breakDownARN ''my-table'' =
       Inr \<lparr>ARN = ''my-table'', Partition = None, Service = None, Region = None,
            AccountId = None, ResourceType = None, Resource = None, Qualifier = None\<rparr>"
proof -
  have short: "length (arnParts ''my-table'') < 2"
    by (simp add: arnParts_def replace_char_def)
  show ?thesis
    using short breakDownARN_short_input [OF short] by simp
qed

section \<open>Properties of the handler\<close>

lemmas io_defs = ret_def bind_def lift_def boto_def print_def

lemma getIpAddressesFromRoute53Entry_run:
  "getIpAddressesFromRoute53Entry a z h t =
     (case list_resource_record_sets a z of Inl e \<Rightarrow> Inl e | Inr rs \<Rightarrow> Inr [],
      t @ [ListResourceRecordSets z])"
  by (simp add: getIpAddressesFromRoute53Entry_def io_defs Let_def split: sum.splits)

lemma setDNSRecord_run:
  "setDNSRecord a z h ips t =
     (change_resource_record_sets a z
        \<lparr>Name = h, Type = ''A'', TTL = 300,
         ResourceRecords = map (\<lambda>ip. \<lparr>Value = ip\<rparr>) ips\<rparr>,
      t @ [ChangeResourceRecordSets z
        \<lparr>Name = h, Type = ''A'', TTL = 300,
         ResourceRecords = map (\<lambda>ip. \<lparr>Value = ip\<rparr>) ips\<rparr>])"
  by (simp add: setDNSRecord_def io_defs Let_def)

lemma getIPofInstance_run:
  "getIPofInstance a i t = (ec2_public_ip_address a i, t @ [Ec2InstanceLoad i])"
  by (simp add: getIPofInstance_def io_defs)

lemma resumeAutoscaleTransition_run:
  "resumeAutoscaleTransition a g h i t =
     (case complete_lifecycle_action a h g i of Inl e \<Rightarrow> Inl e | Inr u \<Rightarrow> Inr True,
      t @ [CompleteLifecycleAction h g i])"
  by (simp add: resumeAutoscaleTransition_def io_defs split: sum.splits)

lemmas run_simps = getIpAddressesFromRoute53Entry_run setDNSRecord_run getIPofInstance_run
  resumeAutoscaleTransition_run

lemmas handler_defs = lambda_handler_def finally_return_def except_Exception_def
  handler_body_def

lemmas eval_handler = handler_defs update_for_transition_def baselineIpAddressesInDNS_def
  is_lifecycle_event_def detail_item_def py_index_def io_defs run_simps
  fleet_aws_def throttled_aws_def fleet_config_def lifecycle_event_def

text \<open>The loop over the instances only appends to the trace.\<close>

lemma collect_ips_extends: "\<exists>es. snd (collect_ips a is acc t) = t @ es"
proof (induction "is" arbitrary: acc t)
  case Nil
  show ?case by (simp add: ret_def)
next
  case (Cons i "is")
  show ?case
  proof (cases "ec2_public_ip_address a (PStr i)")
    case (Inl e)
    then show ?thesis by (simp add: bind_def getIPofInstance_run)
  next
    case (Inr ip)
    from Cons.IH [of "acc @ [ip]" "t @ [Ec2InstanceLoad (PStr i)]"]
    show ?thesis using Inr by (auto simp: bind_def getIPofInstance_run)
  qed
qed

text \<open>The baseline starts by asking the autoscaling service for the group.\<close>

lemma baseline_starts:
  "\<exists>rest. snd (baselineIpAddressesInDNS a z h g []) = DescribeAutoScalingGroups g # rest"
proof (cases "describe_auto_scaling_groups a g")
  case (Inl e)
  then show ?thesis by (simp add: baselineIpAddressesInDNS_def bind_def boto_def)
next
  case (Inr groups)
  show ?thesis
  proof (cases "py_index groups 0")
    case (Inl e)
    with Inr show ?thesis by (simp add: baselineIpAddressesInDNS_def bind_def boto_def lift_def)
  next
    case inst: (Inr instances)
    obtain r t where c: "collect_ips a instances [] [DescribeAutoScalingGroups g] = (r, t)"
      by (cases "collect_ips a instances [] [DescribeAutoScalingGroups g]")
    from collect_ips_extends [of a instances "[]" "[DescribeAutoScalingGroups g]"]
    obtain es where "t = DescribeAutoScalingGroups g # es" using c by auto
    with Inr inst c show ?thesis
      by (cases r) (simp_all add: baselineIpAddressesInDNS_def bind_def boto_def lift_def
          ret_def setDNSRecord_run split: sum.splits)
  qed
qed

text \<open>The events, among the dictionaries, on which the handler's condition is false.\<close>

lemma is_lifecycle_event_dict_False:
  "is_lifecycle_event (PDict kvs) = Inr False \<longleftrightarrow>
     map_of kvs ''source'' = None
   \<or> (\<exists>s. map_of kvs ''source'' = Some s \<and> s \<noteq> PStr ''aws.autoscaling'')
   \<or> (map_of kvs ''source'' = Some (PStr ''aws.autoscaling'')
      \<and> (\<exists>d. map_of kvs ''detail-type'' = Some d
             \<and> d \<noteq> PStr ''EC2 Instance-launch Lifecycle Action''))
   \<or> (map_of kvs ''source'' = Some (PStr ''aws.autoscaling'')
      \<and> map_of kvs ''detail-type'' = Some (PStr ''EC2 Instance-launch Lifecycle Action'')
      \<and> (\<exists>d. map_of kvs ''detail'' = Some d \<and> py_contains d ''EC2InstanceId'' = Inr False))"
  by (auto simp: is_lifecycle_event_def split: option.splits)

text \<open>The statement on the transition never acknowledges, and a refused write ends it.\<close>

lemma update_no_ack:
  "CompleteLifecycleAction hook g i \<notin> set t \<Longrightarrow>
   CompleteLifecycleAction hook g i \<notin> set (snd (update_for_transition a cfg lt ip t))"
  by (simp add: update_for_transition_def bind_def lift_def print_def run_simps
      split: sum.split)

lemma update_failed_write:
  "ChangeResourceRecordSets z rr \<notin> set t \<Longrightarrow>
   change_resource_record_sets a z rr = Inl e \<Longrightarrow>
   ChangeResourceRecordSets z rr \<in> set (snd (update_for_transition a cfg lt ip t)) \<longrightarrow>
   fst (update_for_transition a cfg lt ip t) = Inl e"
  by (auto simp: update_for_transition_def bind_def lift_def print_def run_simps
      split: sum.split)

text \<open>
  C2. Whatever list of record sets the DNS service returns, also one that holds an
  \<open>A\<close> record of the host with addresses, \<open>getIpAddressesFromRoute53Entry\<close> returns the
  empty list: its second loop runs over the empty dictionary \<open>resourceRecordSet\<close>.
\<close>

theorem getIpAddressesFromRoute53Entry_empty:
  "list_resource_record_sets a zone = Inr currentRecordSets \<Longrightarrow>
   getIpAddressesFromRoute53Entry a zone host t = (Inr [], t @ [ListResourceRecordSets zone])"
  by (simp add: getIpAddressesFromRoute53Entry_def io_defs Let_def)

theorem getIpAddressesFromRoute53Entry_empty_witness:
  "list_resource_record_sets fleet_aws (Some ''Z1'') =
     Inr [\<lparr>rs_Name = ''fleet.example.com.'', rs_Type = ''A'',
           rs_ResourceRecords = [\<lparr>Value = PStr ''198.51.100.2''\<rparr>,
                                 \<lparr>Value = PStr ''198.51.100.3''\<rparr>]\<rparr>]
   \<and> getIpAddressesFromRoute53Entry fleet_aws (Some ''Z1'') (Some ''fleet.example.com.'') [] =
       (Inr [], [ListResourceRecordSets (Some ''Z1'')])"
proof -
  have listed: "list_resource_record_sets fleet_aws (Some ''Z1'') =
     Inr [\<lparr>rs_Name = ''fleet.example.com.'', rs_Type = ''A'',
           rs_ResourceRecords = [\<lparr>Value = PStr ''198.51.100.2''\<rparr>,
                                 \<lparr>Value = PStr ''198.51.100.3''\<rparr>]\<rparr>]"
    by (simp add: fleet_aws_def)
  show ?thesis
    using listed
      getIpAddressesFromRoute53Entry_empty [OF listed, of "Some ''fleet.example.com.''" "[]"]
    by simp
qed

text \<open>
  C3, on the code: a \<open>LAUNCHING\<close> event for instance \<open>i-0aaa\<close> with address
  \<open>198.51.100.1\<close>, while the record of the host holds \<open>198.51.100.2\<close> and
  \<open>198.51.100.3\<close>. The handler acknowledges the transition, but the record set it writes
  holds the new address alone: the two current addresses are lost.
\<close>

theorem launching_drops_current_addresses:
  "lambda_handler fleet_aws fleet_config
     (lifecycle_event ''i-0aaa'' ''autoscaling:EC2_INSTANCE_LAUNCHING'') [] =
   (Inr '''',
    [Ec2InstanceLoad (PStr ''i-0aaa''),
     ListResourceRecordSets (Some ''Z1''),
     ChangeResourceRecordSets (Some ''Z1'')
       \<lparr>Name = Some ''fleet.example.com.'', Type = ''A'', TTL = 300,
        ResourceRecords = [\<lparr>Value = PStr ''198.51.100.1''\<rparr>]\<rparr>,
     Print ''Success: Host record updated to include the new instance public IP address.'',
     CompleteLifecycleAction (PStr ''dns-hook'') (Some ''fleet'') (PStr ''i-0aaa'')])"
  by (simp add: eval_handler)

text \<open>
  C4, on the code: a \<open>TERMINATING\<close> event for instance \<open>i-0bbb\<close> with address
  \<open>198.51.100.2\<close>, while the record of the host holds \<open>198.51.100.2\<close> and
  \<open>198.51.100.3\<close>. \<open>remove\<close> runs on the empty list and raises \<open>ValueError\<close>: nothing is
  written, and the transition is not acknowledged.
\<close>

theorem terminating_writes_nothing:
  "lambda_handler fleet_aws fleet_config
     (lifecycle_event ''i-0bbb'' ''autoscaling:EC2_INSTANCE_TERMINATING'') [] =
   (Inr '''',
    [Ec2InstanceLoad (PStr ''i-0bbb''),
     ListResourceRecordSets (Some ''Z1''),
     PrintException ValueError])"
  by (simp add: eval_handler)

text \<open>
  C7. For every event, every configuration and every behaviour of the services,
  \<open>lambda_handler\<close> returns the empty string: no exception leaves it, not even one
  outside \<open>Exception\<close>, since the \<open>finally\<close> clause returns.
\<close>

theorem lambda_handler_returns_empty_string:
  "fst (lambda_handler a cfg event t) = Inr ''''"
  by (simp add: lambda_handler_def finally_return_def split: prod.splits)

theorem lambda_handler_returns_empty_string_witness:
  "fst (lambda_handler throttled_aws fleet_config PNone []) = Inr ''''
   \<and> fst (lambda_handler
        (fleet_aws\<lparr>ec2_public_ip_address := (\<lambda>i. Inl (BaseExc ''SystemExit''))\<rparr>)
        fleet_config (lifecycle_event ''i-0aaa'' ''autoscaling:EC2_INSTANCE_LAUNCHING'') [])
      = Inr ''''"
  using lambda_handler_returns_empty_string [of throttled_aws fleet_config PNone "[]"]
    lambda_handler_returns_empty_string
      [of "fleet_aws\<lparr>ec2_public_ip_address := (\<lambda>i. Inl (BaseExc ''SystemExit''))\<rparr>"
          fleet_config "lifecycle_event ''i-0aaa'' ''autoscaling:EC2_INSTANCE_LAUNCHING''" "[]"]
  by simp

text \<open>
  C1, as stated, fails: on a \<open>LAUNCHING\<close> event whose DNS write is refused, the exception
  leaves the \<open>try\<close> body before \<open>resumeAutoscaleTransition\<close> is reached, and the handler
  returns without the acknowledgement.
\<close>

theorem refused_write_counterexample:
  "lambda_handler throttled_aws fleet_config
     (lifecycle_event ''i-0aaa'' ''autoscaling:EC2_INSTANCE_LAUNCHING'') [] =
   (Inr '''',
    [Ec2InstanceLoad (PStr ''i-0aaa''),
     ListResourceRecordSets (Some ''Z1''),
     ChangeResourceRecordSets (Some ''Z1'')
       \<lparr>Name = Some ''fleet.example.com.'', Type = ''A'', TTL = 300,
        ResourceRecords = [\<lparr>Value = PStr ''198.51.100.1''\<rparr>]\<rparr>,
     PrintException (ClientError ''Throttling'')])"
  by (simp add: eval_handler)

text \<open>
  C1, amended. For every recognized lifecycle event, if the handler issues a DNS write
  and the DNS service refuses it, then the handler makes no call of
  \<open>complete_lifecycle_action\<close> at all, and returns the empty string.
\<close>

theorem refused_write_skips_acknowledgement:
  assumes rec: "is_lifecycle_event event = Inr True"
    and wr: "ChangeResourceRecordSets z rr \<in> set (snd (lambda_handler a cfg event []))"
    and fail: "change_resource_record_sets a z rr = Inl e"
  shows "CompleteLifecycleAction hook g i \<notin> set (snd (lambda_handler a cfg event []))
    \<and> fst (lambda_handler a cfg event []) = Inr ''''"
proof -
  have r: "fst (lambda_handler a cfg event []) = Inr ''''"
    by (simp add: lambda_handler_def finally_return_def split: prod.splits)
  have "ChangeResourceRecordSets z rr \<in> set (snd (lambda_handler a cfg event [])) \<longrightarrow>
      CompleteLifecycleAction hook g i \<notin> set (snd (lambda_handler a cfg event []))"
  proof (cases "detail_item event ''EC2InstanceId''")
    case (Inl x)
    with rec show ?thesis by (simp add: handler_defs bind_def lift_def)
  next
    case iid: (Inr iid)
    show ?thesis
    proof (cases "detail_item event ''LifecycleTransition''")
      case (Inl x)
      with rec iid show ?thesis by (simp add: handler_defs bind_def lift_def)
    next
      case lt: (Inr lt)
      show ?thesis
      proof (cases "detail_item event ''LifecycleHookName''")
        case (Inl x)
        with rec iid lt show ?thesis by (simp add: handler_defs bind_def lift_def)
      next
        case hk: (Inr hk)
        show ?thesis
        proof (cases "ec2_public_ip_address a iid")
          case (Inl x)
          with rec iid lt hk show ?thesis
            by (simp add: handler_defs bind_def lift_def getIPofInstance_run)
        next
          case ip: (Inr ip)
          let ?t0 = "[Ec2InstanceLoad iid]"
          obtain u t1 where up: "update_for_transition a cfg lt ip ?t0 = (u, t1)"
            by (cases "update_for_transition a cfg lt ip ?t0")
          have noack: "CompleteLifecycleAction hook g i \<notin> set t1"
            using update_no_ack [of hook g i ?t0 a cfg lt ip] up by simp
          have failed: "ChangeResourceRecordSets z rr \<in> set t1 \<longrightarrow> u = Inl e"
            using update_failed_write [of z rr ?t0 a e cfg lt ip] fail up by simp
          show ?thesis
          proof (cases u)
            case (Inl x)
            with rec iid lt hk ip up noack show ?thesis
              by (simp add: handler_defs bind_def lift_def getIPofInstance_run)
          next
            case (Inr v)
            with failed have "ChangeResourceRecordSets z rr \<notin> set t1" by auto
            with rec iid lt hk ip up Inr show ?thesis
              by (simp add: handler_defs bind_def lift_def ret_def getIPofInstance_run
                  resumeAutoscaleTransition_run split: sum.split)
          qed
        qed
      qed
    qed
  qed
  with wr r show ?thesis by simp
qed

theorem refused_write_skips_acknowledgement_witness:
  "is_lifecycle_event (lifecycle_event ''i-0aaa'' ''autoscaling:EC2_INSTANCE_LAUNCHING'')
     = Inr True
   \<and> ChangeResourceRecordSets (Some ''Z1'')
        \<lparr>Name = Some ''fleet.example.com.'', Type = ''A'', TTL = 300,
         ResourceRecords = [\<lparr>Value = PStr ''198.51.100.1''\<rparr>]\<rparr>
      \<in> set (snd (lambda_handler throttled_aws fleet_config
           (lifecycle_event ''i-0aaa'' ''autoscaling:EC2_INSTANCE_LAUNCHING'') []))
   \<and> change_resource_record_sets throttled_aws (Some ''Z1'')
        \<lparr>Name = Some ''fleet.example.com.'', Type = ''A'', TTL = 300,
         ResourceRecords = [\<lparr>Value = PStr ''198.51.100.1''\<rparr>]\<rparr>
      = Inl (ClientError ''Throttling'')
   \<and> CompleteLifecycleAction (PStr ''dns-hook'') (Some ''fleet'') (PStr ''i-0aaa'')
      \<notin> set (snd (lambda_handler throttled_aws fleet_config
           (lifecycle_event ''i-0aaa'' ''autoscaling:EC2_INSTANCE_LAUNCHING'') []))
   \<and> fst (lambda_handler throttled_aws fleet_config
           (lifecycle_event ''i-0aaa'' ''autoscaling:EC2_INSTANCE_LAUNCHING'') []) = Inr ''''"
proof -
  let ?ev = "lifecycle_event ''i-0aaa'' ''autoscaling:EC2_INSTANCE_LAUNCHING''"
  let ?rr = "\<lparr>Name = Some ''fleet.example.com.'', Type = ''A'', TTL = 300,
         ResourceRecords = [\<lparr>Value = PStr ''198.51.100.1''\<rparr>]\<rparr>"
  have rec: "is_lifecycle_event ?ev = Inr True"
    by (simp add: is_lifecycle_event_def lifecycle_event_def)
  have wr: "ChangeResourceRecordSets (Some ''Z1'') ?rr
      \<in> set (snd (lambda_handler throttled_aws fleet_config ?ev []))"
    by (simp add: eval_handler)
  have fail: "change_resource_record_sets throttled_aws (Some ''Z1'') ?rr
      = Inl (ClientError ''Throttling'')"
    by (simp add: throttled_aws_def)
  show ?thesis
    using rec wr fail
      refused_write_skips_acknowledgement [OF rec wr fail, of "PStr ''dns-hook''"
        "Some ''fleet''" "PStr ''i-0aaa''"]
    by blast
qed

text \<open>
  C6, as stated, fails: an event whose \<open>source\<close> is \<open>aws.autoscaling\<close> and that has no
  \<open>detail-type\<close> lacks the recognized shape, yet the condition raises \<open>KeyError\<close> and the
  handler ends without any call to a service.
\<close>

theorem missing_detail_type_counterexample:
  "lambda_handler fleet_aws fleet_config (PDict [(''source'', PStr ''aws.autoscaling'')]) [] =
   (Inr '''', [PrintException KeyError])"
  by (simp add: eval_handler)

text \<open>
  C6, amended. For every event on which the handler's condition evaluates to false (for
  a dictionary: no \<open>source\<close>, or a \<open>source\<close> other than \<open>aws.autoscaling\<close>, or a
  \<open>detail-type\<close> that is present and differs, or a \<open>detail\<close> that is present and does not
  contain \<open>EC2InstanceId\<close>), the handler runs \<open>baselineIpAddressesInDNS\<close> and nothing
  before it: its first call asks the autoscaling service for the group.
\<close>

theorem unrecognized_event_runs_baseline:
  assumes "is_lifecycle_event event = Inr False"
  shows "lambda_handler a cfg event [] =
      finally_return '''' (except_Exception
        (bind (baselineIpAddressesInDNS a (route53ZoneId cfg) (hostRecordToMaintain cfg)
                 (autoscaleGroupName cfg))
           (\<lambda>_. print ''Success: Host record reset with current instance public IP addresses for autoscale group.''))) []
    \<and> (\<exists>rest. snd (lambda_handler a cfg event []) =
          DescribeAutoScalingGroups (autoscaleGroupName cfg) # rest)"
proof -
  let ?g = "autoscaleGroupName cfg"
  obtain r t where
    b: "baselineIpAddressesInDNS a (route53ZoneId cfg) (hostRecordToMaintain cfg) ?g [] = (r, t)"
    by (cases "baselineIpAddressesInDNS a (route53ZoneId cfg) (hostRecordToMaintain cfg) ?g []")
  from baseline_starts [of a "route53ZoneId cfg" "hostRecordToMaintain cfg" ?g]
  obtain rest where t: "t = DescribeAutoScalingGroups ?g # rest"
    using b by auto
  have eq: "handler_body a cfg event =
      bind (baselineIpAddressesInDNS a (route53ZoneId cfg) (hostRecordToMaintain cfg) ?g)
        (\<lambda>_. print ''Success: Host record reset with current instance public IP addresses for autoscale group.'')"
    using assms by (simp add: handler_body_def bind_def lift_def fun_eq_iff)
  have "\<exists>rest. snd (lambda_handler a cfg event []) = DescribeAutoScalingGroups ?g # rest"
    using b t
    by (simp add: eq lambda_handler_def finally_return_def except_Exception_def bind_def
        print_def split: sum.splits)
  then show ?thesis by (simp add: eq lambda_handler_def)
qed

theorem unrecognized_event_runs_baseline_witness:
  "is_lifecycle_event (PDict [(''source'', PStr ''aws.ec2'')]) = Inr False
   \<and> (\<exists>rest. snd (lambda_handler fleet_aws fleet_config
                    (PDict [(''source'', PStr ''aws.ec2'')]) []) =
          DescribeAutoScalingGroups (Some ''fleet'') # rest)"
proof -
  have no: "is_lifecycle_event (PDict [(''source'', PStr ''aws.ec2'')]) = Inr False"
    by (simp add: is_lifecycle_event_def)
  have grp: "autoscaleGroupName fleet_config = Some ''fleet''"
    by (simp add: fleet_config_def)
  from unrecognized_event_runs_baseline [OF no, of fleet_aws fleet_config]
  have "\<exists>rest. snd (lambda_handler fleet_aws fleet_config
                    (PDict [(''source'', PStr ''aws.ec2'')]) []) =
          DescribeAutoScalingGroups (autoscaleGroupName fleet_config) # rest"
    by (rule conjunct2)
  then have "\<exists>rest. snd (lambda_handler fleet_aws fleet_config
                    (PDict [(''source'', PStr ''aws.ec2'')]) []) =
          DescribeAutoScalingGroups (Some ''fleet'') # rest"
    by (simp only: grp)
  with no show ?thesis by (rule conjI)
qed

text \<open>
  C5, as stated, fails: invoked with \<open>None\<close> for the event, which is not a recognized
  event, while the autoscaling service reports the two members and both have public
  addresses, the handler writes nothing. The membership test \<open>"source" in event\<close> raises
  \<open>TypeError\<close>, and the \<open>except\<close> clause ends the invocation before the baseline.
\<close>

theorem null_event_writes_nothing_counterexample:
  "describe_auto_scaling_groups fleet_aws (autoscaleGroupName fleet_config)
     = Inr ([''i-0aaa'', ''i-0bbb''] # [])
   \<and> ec2_public_ip_address fleet_aws (PStr ''i-0aaa'') = Inr (PStr ''198.51.100.1'')
   \<and> ec2_public_ip_address fleet_aws (PStr ''i-0bbb'') = Inr (PStr ''198.51.100.2'')
   \<and> is_lifecycle_event PNone = Inl TypeError
   \<and> lambda_handler fleet_aws fleet_config PNone [] = (Inr '''', [PrintException TypeError])"
  by (simp add: eval_handler)

text \<open>
  C5, amended. On an event on which the handler's condition evaluates to false, when the
  autoscaling service reports a group with the members \<open>M1\<close> and \<open>M2\<close> whose public
  addresses are \<open>A1\<close> and \<open>A2\<close>, the handler sends one DNS write, of the record set with
  exactly the addresses \<open>A1, A2\<close>. It never reads the zone, so what the record held
  before plays no part.
\<close>

theorem baseline_writes_members:
  assumes "is_lifecycle_event event = Inr False"
    and "describe_auto_scaling_groups a (autoscaleGroupName cfg) = Inr ([M1, M2] # others)"
    and "ec2_public_ip_address a (PStr M1) = Inr A1"
    and "ec2_public_ip_address a (PStr M2) = Inr A2"
  shows "snd (lambda_handler a cfg event []) =
     [DescribeAutoScalingGroups (autoscaleGroupName cfg),
      Ec2InstanceLoad (PStr M1), Ec2InstanceLoad (PStr M2),
      ChangeResourceRecordSets (route53ZoneId cfg)
        \<lparr>Name = hostRecordToMaintain cfg, Type = ''A'', TTL = 300,
         ResourceRecords = [\<lparr>Value = A1\<rparr>, \<lparr>Value = A2\<rparr>]\<rparr>]
     @ (case change_resource_record_sets a (route53ZoneId cfg)
               \<lparr>Name = hostRecordToMaintain cfg, Type = ''A'', TTL = 300,
                ResourceRecords = [\<lparr>Value = A1\<rparr>, \<lparr>Value = A2\<rparr>]\<rparr> of
          Inr u \<Rightarrow> [Print ''Success: Host record reset with current instance public IP addresses for autoscale group.'']
        | Inl e \<Rightarrow> if is_Exception e then [PrintException e] else [])"
  using assms
  by (simp add: handler_defs baselineIpAddressesInDNS_def bind_def lift_def print_def ret_def
      boto_def py_index_def run_simps split: sum.splits)

theorem baseline_writes_members_witness:
  "is_lifecycle_event (PDict []) = Inr False
   \<and> describe_auto_scaling_groups fleet_aws (autoscaleGroupName fleet_config)
       = Inr ([''i-0aaa'', ''i-0bbb''] # [])
   \<and> ec2_public_ip_address fleet_aws (PStr ''i-0aaa'') = Inr (PStr ''198.51.100.1'')
   \<and> ec2_public_ip_address fleet_aws (PStr ''i-0bbb'') = Inr (PStr ''198.51.100.2'')
   \<and> snd (lambda_handler fleet_aws fleet_config (PDict []) []) =
       [DescribeAutoScalingGroups (Some ''fleet''),
        Ec2InstanceLoad (PStr ''i-0aaa''), Ec2InstanceLoad (PStr ''i-0bbb''),
        ChangeResourceRecordSets (Some ''Z1'')
          \<lparr>Name = Some ''fleet.example.com.'', Type = ''A'', TTL = 300,
           ResourceRecords = [\<lparr>Value = PStr ''198.51.100.1''\<rparr>,
                              \<lparr>Value = PStr ''198.51.100.2''\<rparr>]\<rparr>,
        Print ''Success: Host record reset with current instance public IP addresses for autoscale group.'']"
proof -
  have no: "is_lifecycle_event (PDict []) = Inr False"
    by (simp add: is_lifecycle_event_def)
  have grp: "describe_auto_scaling_groups fleet_aws (autoscaleGroupName fleet_config)
       = Inr ([''i-0aaa'', ''i-0bbb''] # [])"
    by (simp add: fleet_aws_def)
  have a1: "ec2_public_ip_address fleet_aws (PStr ''i-0aaa'') = Inr (PStr ''198.51.100.1'')"
    by (simp add: fleet_aws_def)
  have a2: "ec2_public_ip_address fleet_aws (PStr ''i-0bbb'') = Inr (PStr ''198.51.100.2'')"
    by (simp add: fleet_aws_def)
  have ok: "change_resource_record_sets fleet_aws z rr = Inr ()" for z rr
    by (simp add: fleet_aws_def)
  show ?thesis
    using no grp a1 a2 baseline_writes_members [OF no grp a1 a2]
    by (simp add: ok fleet_config_def)
qed

end
